theory Spec2Isabelle
  imports Complex_Main
begin

section \<open>The code executor of \<^verbatim>\<open>execute.py\<close>\<close>

text \<open>
  \<^verbatim>\<open>execute.py\<close> reads one request from standard input, writes the submitted
  code to \<^verbatim>\<open>main.py\<close> in a fresh temporary directory, runs it as a child
  process under a wall-clock timeout, prints one result and removes the directory.

  The script is glue around the operating system, so the embedding has two parts.
  A \<open>world\<close> holds what the script cannot decide: the request on standard input, the
  process environment, and the answer of every operating-system or library call
  (\<^verbatim>\<open>json.loads\<close>, \<^verbatim>\<open>int\<close>, \<^verbatim>\<open>tempfile.mkdtemp\<close>,
  \<^verbatim>\<open>open\<close>, \<^verbatim>\<open>subprocess.run\<close>, \<^verbatim>\<open>time.time\<close>,
  \<^verbatim>\<open>shutil.rmtree\<close>). A \<open>sys_state\<close> holds what the script changes:
  directories and files, child processes, and the messages printed. Every Python
  statement that can raise is a computation that returns either the exception or a
  value, together with the new state; \<^verbatim>\<open>try\<close>/\<^verbatim>\<open>except\<close>/\<^verbatim>\<open>finally\<close>
  are combinators on such computations.

  Floating-point numbers are the reals they denote; the two floating-point operations
  the script performs are answers of the world, so nothing is assumed about their
  rounding. The request text is a list of Unicode code points, since
  \<^verbatim>\<open>strip\<close> inspects its characters; text that the script only copies or
  concatenates is a \<open>string\<close>.

  Outside the model: asynchronous interrupts (\<^verbatim>\<open>KeyboardInterrupt\<close>), a failing
  \<^verbatim>\<open>print\<close>, and what the child process itself does to the file system.
\<close>

subsection \<open>Python values\<close>

text \<open>What \<^verbatim>\<open>json.loads\<close> can return.\<close>

datatype pyval =
    VNone
  | VBool bool
  | VInt int
  | VFloat real
  | VStr string
  | VList "pyval list"
  | VDict "(string \<times> pyval) list"

text \<open>Truth value of an object, as \<^verbatim>\<open>not code\<close> tests it.\<close>

fun truthy :: "pyval \<Rightarrow> bool" where
  "truthy VNone = False"
| "truthy (VBool b) = b"
| "truthy (VInt i) = (i \<noteq> 0)"
| "truthy (VFloat r) = (r \<noteq> 0)"
| "truthy (VStr s) = (s \<noteq> [])"
| "truthy (VList xs) = (xs \<noteq> [])"
| "truthy (VDict kvs) = (kvs \<noteq> [])"

fun type_name :: "pyval \<Rightarrow> string" where
  "type_name VNone = ''NoneType''"
| "type_name (VBool b) = ''bool''"
| "type_name (VInt i) = ''int''"
| "type_name (VFloat r) = ''float''"
| "type_name (VStr s) = ''str''"
| "type_name (VList xs) = ''list''"
| "type_name (VDict kvs) = ''dict''"

text \<open>How a rejected argument is named in a \<^verbatim>\<open>TypeError\<close>.\<close>

fun argument_name :: "pyval \<Rightarrow> string" where
  "argument_name VNone = ''None''"
| "argument_name v = type_name v"

text \<open>
  Exceptions. Every exception the modelled calls raise is an instance of
  \<^verbatim>\<open>Exception\<close>; only \<^verbatim>\<open>subprocess.TimeoutExpired\<close> is caught by
  class. The string is what \<^verbatim>\<open>str(e)\<close> returns.
\<close>

datatype exn = TimeoutExpired string | Error string

fun exn_str :: "exn \<Rightarrow> string" where
  "exn_str (TimeoutExpired m) = m"
| "exn_str (Error m) = m"

text \<open>
  \<^verbatim>\<open>data.get(key, default)\<close>: a dictionary lookup with a default; any other
  JSON value has no attribute \<^verbatim>\<open>get\<close> and the call raises
  \<^verbatim>\<open>AttributeError\<close>.
\<close>

fun py_get :: "pyval \<Rightarrow> string \<Rightarrow> pyval \<Rightarrow> exn + pyval" where
  "py_get (VDict kvs) k d = Inr (case map_of kvs k of None \<Rightarrow> d | Some v \<Rightarrow> v)"
| "py_get v k d =
     Inl (Error ([CHR 0x27] @ type_name v @ [CHR 0x27] @ '' object has no attribute ''
                 @ [CHR 0x27] @ ''get'' @ [CHR 0x27]))"

text \<open>
  A \<^verbatim>\<open>str\<close> whose characters matter is the list of its code points;
  \<open>unicode_of\<close> is the \<^verbatim>\<open>str\<close> of an ASCII literal.
\<close>

type_synonym unicode = "nat list"

definition unicode_of :: "string \<Rightarrow> unicode" where
  "unicode_of s = map of_char s"

text \<open>
  \<^verbatim>\<open>str.strip()\<close> removes leading and trailing white space: the code points
  that \<^verbatim>\<open>str.isspace\<close> accepts, which are U+0009 to U+000D, U+001C to U+0020,
  U+0085, U+00A0, U+1680, U+2000 to U+200A, U+2028, U+2029, U+202F, U+205F and U+3000.
\<close>

definition py_isspace :: "nat \<Rightarrow> bool" where
  "py_isspace c =
     (0x09 \<le> c \<and> c \<le> 0x0D \<or> 0x1C \<le> c \<and> c \<le> 0x20 \<or> c = 0x85 \<or> c = 0xA0 \<or>
      c = 0x1680 \<or> 0x2000 \<le> c \<and> c \<le> 0x200A \<or> c = 0x2028 \<or> c = 0x2029 \<or>
      c = 0x202F \<or> c = 0x205F \<or> c = 0x3000)"

definition py_strip :: "unicode \<Rightarrow> unicode" where
  "py_strip s = rev (dropWhile py_isspace (rev (dropWhile py_isspace s)))"

text \<open>\<^verbatim>\<open>str(n)\<close> for an integer, as the f-string formats the timeout.\<close>

fun str_nat :: "nat \<Rightarrow> string" where
  "str_nat n =
     (if n < 10 then [''0123456789'' ! n]
      else str_nat (n div 10) @ [''0123456789'' ! (n mod 10)])"

definition py_str :: "int \<Rightarrow> string" where
  "py_str i = (if i < 0 then ''-'' @ str_nat (nat (- i)) else str_nat (nat i))"

subsection \<open>Results and messages\<close>

text \<open>
  \<^verbatim>\<open>execution_time\<close> is a Python float on the normal path and a Python int on
  the two others.
\<close>

datatype number = IntNum int | FloatNum real

record execution_result =
  success :: bool
  stdout :: string
  stderr :: string
  exit_code :: int
  execution_time :: number

text \<open>
  The object handed to \<^verbatim>\<open>print(json.dumps(...))\<close>: the dictionary returned by
  \<^verbatim>\<open>execute_code\<close>, or \<^verbatim>\<open>{'success': False, 'error': msg}\<close>.
\<close>

datatype message = Result execution_result | Failure string

subsection \<open>The world and the state\<close>

record run_args =
  argv :: "string list"
  cwd :: string
  timeout_arg :: int
  env :: "string \<rightharpoonup> string"

text \<open>
  What can happen to the child inside \<^verbatim>\<open>subprocess.run\<close>: it cannot be started,
  it exits with a return code and the bytes it wrote to its standard output and
  standard error, it is still running when the timeout expires, or reading from its
  pipes fails.
\<close>

datatype run_outcome =
    Spawn_failed string
  | Exited int string string
  | Timed_out string
  | Communicate_failed string

text \<open>
  \<^verbatim>\<open>shutil.rmtree(d, ignore_errors=True)\<close>: the tree is removed, or an error
  occurred and was ignored, or something else was raised.
\<close>

datatype rmtree_outcome = Removed | Errors_ignored | Rmtree_raised exn

text \<open>
  \<open>decode\<close> is the text mode of \<^verbatim>\<open>subprocess.run(..., text=True)\<close>: the bytes
  of a stream become text, or a \<^verbatim>\<open>UnicodeDecodeError\<close> with its message.
  \<open>float_sub\<close> and \<open>float_mul\<close> are subtraction and multiplication of Python
  floats. \<^verbatim>\<open>sys.stdin.isatty()\<close> and \<^verbatim>\<open>sys.stdin.read()\<close> can raise.
\<close>

record world =
  stdin_isatty :: "string + bool"
  stdin_read :: "string + unicode"
  json_loads :: "unicode \<Rightarrow> string + pyval"
  environ :: "string \<rightharpoonup> string"
  int_builtin :: "string \<Rightarrow> string + int"
  mkdtemp :: "string \<Rightarrow> string + string"
  sys_executable :: string
  open_result :: "string option"
  write_result :: "string option"
  time_start :: real
  time_end :: real
  float_sub :: "real \<Rightarrow> real \<Rightarrow> real"
  float_mul :: "real \<Rightarrow> real \<Rightarrow> real"
  decode :: "string \<Rightarrow> string + string"
  run_child :: "run_args \<Rightarrow> (string \<times> string \<rightharpoonup> string) \<Rightarrow> run_outcome"
  rmtree_result :: rmtree_outcome

text \<open>
  Files are keyed by directory and name. \<open>spawned\<close> counts the children ever started,
  \<open>running\<close> those still executing, \<open>zombies\<close> those that ended and were not yet
  waited for. \<open>env_reads\<close> logs the keys looked up with \<^verbatim>\<open>os.environ.get\<close>.
\<close>

record sys_state =
  dirs :: "string set"
  files :: "string \<times> string \<rightharpoonup> string"
  spawned :: nat
  running :: nat
  zombies :: nat
  env_reads :: "string list"
  printed :: "message list"

type_synonym 'a io = "sys_state \<Rightarrow> (exn + 'a) \<times> sys_state"

definition io_return :: "'a \<Rightarrow> 'a io" where
  "io_return x = (\<lambda>s. (Inr x, s))"

definition io_raise :: "exn \<Rightarrow> 'a io" where
  "io_raise e = (\<lambda>s. (Inl e, s))"

definition io_bind :: "'a io \<Rightarrow> ('a \<Rightarrow> 'b io) \<Rightarrow> 'b io" where
  "io_bind m f = (\<lambda>s. case m s of (Inl e, s') \<Rightarrow> (Inl e, s') | (Inr x, s') \<Rightarrow> f x s')"

text \<open>The answer of a library call: a message becomes a raised exception.\<close>

definition io_lift :: "string + 'a \<Rightarrow> 'a io" where
  "io_lift r = (case r of Inl m \<Rightarrow> io_raise (Error m) | Inr x \<Rightarrow> io_return x)"

text \<open>\<^verbatim>\<open>try: m except Exception as e: h e\<close> (and the bare \<^verbatim>\<open>except:\<close>).\<close>

definition try_except :: "'a io \<Rightarrow> (exn \<Rightarrow> 'a io) \<Rightarrow> 'a io" where
  "try_except m h = (\<lambda>s. case m s of (Inl e, s') \<Rightarrow> h e s' | (Inr x, s') \<Rightarrow> (Inr x, s'))"

text \<open>\<^verbatim>\<open>try: m except subprocess.TimeoutExpired: h\<close>: other exceptions pass.\<close>

definition try_except_timeout :: "'a io \<Rightarrow> 'a io \<Rightarrow> 'a io" where
  "try_except_timeout m h =
     (\<lambda>s. case m s of (Inl (TimeoutExpired t), s') \<Rightarrow> h s' | r \<Rightarrow> r)"

text \<open>
  \<^verbatim>\<open>try: m finally: fin\<close>: \<open>fin\<close> runs whatever \<open>m\<close> did; the value or exception
  of \<open>m\<close> stands unless \<open>fin\<close> raises, and then the exception of \<open>fin\<close> replaces it.
\<close>

definition try_finally :: "'a io \<Rightarrow> unit io \<Rightarrow> 'a io" where
  "try_finally m fin =
     (\<lambda>s. case m s of (r, s') \<Rightarrow>
        (case fin s' of (Inl e, s'') \<Rightarrow> (Inl e, s'') | (Inr u, s'') \<Rightarrow> (r, s'')))"

subsection \<open>Library calls with effects\<close>

definition print :: "message \<Rightarrow> unit io" where
  "print m = (\<lambda>s. (Inr (), s\<lparr>printed := printed s @ [m]\<rparr>))"

text \<open>\<^verbatim>\<open>os.environ.get(key, default)\<close>.\<close>

definition environ_get :: "world \<Rightarrow> string \<Rightarrow> string \<Rightarrow> string io" where
  "environ_get w k d =
     (\<lambda>s. (Inr (case environ w k of None \<Rightarrow> d | Some v \<Rightarrow> v),
            s\<lparr>env_reads := env_reads s @ [k]\<rparr>))"

text \<open>\<^verbatim>\<open>tempfile.mkdtemp(prefix=p)\<close>: a new, empty directory, or an error.\<close>

definition tempfile_mkdtemp :: "world \<Rightarrow> string \<Rightarrow> string io" where
  "tempfile_mkdtemp w p =
     (\<lambda>s. case mkdtemp w p of
             Inl m \<Rightarrow> (Inl (Error m), s)
           | Inr d \<Rightarrow> (Inr d, s\<lparr>dirs := insert d (dirs s)\<rparr>))"

text \<open>
  \<^verbatim>\<open>with open(code_file, 'w') as f: f.write(code)\<close>: opening truncates the file;
  writing anything but a string is a \<^verbatim>\<open>TypeError\<close>; writing or closing can
  fail.
\<close>

definition open_w :: "world \<Rightarrow> string \<times> string \<Rightarrow> unit io" where
  "open_w w p =
     (\<lambda>s. case open_result w of
             Some m \<Rightarrow> (Inl (Error m), s)
           | None \<Rightarrow> (Inr (), s\<lparr>files := (files s)(p \<mapsto> [])\<rparr>))"

definition file_write :: "world \<Rightarrow> string \<times> string \<Rightarrow> pyval \<Rightarrow> unit io" where
  "file_write w p v =
     (\<lambda>s. case v of
             VStr text \<Rightarrow>
               (case write_result w of
                  Some m \<Rightarrow> (Inl (Error m), s)
                | None \<Rightarrow> (Inr (), s\<lparr>files := (files s)(p \<mapsto> text)\<rparr>))
           | _ \<Rightarrow> (Inl (Error (''write() argument must be str, not '' @ argument_name v)), s))"

text \<open>
  \<^verbatim>\<open>subprocess.run(args, timeout=t, ...)\<close> as the standard library implements
  it: start the child; wait for it and read its output for at most \<open>t\<close> seconds; when the
  time is up, or reading fails, kill the child and wait for it before raising. When
  the child has exited, its output is decoded, standard output first, and a decoding
  error is raised in place of the result.
\<close>

definition popen :: "sys_state \<Rightarrow> sys_state" where
  "popen s = s\<lparr>spawned := spawned s + 1, running := running s + 1\<rparr>"

definition child_exit :: "sys_state \<Rightarrow> sys_state" where
  "child_exit s = s\<lparr>running := running s - 1, zombies := zombies s + 1\<rparr>"

definition process_kill :: "sys_state \<Rightarrow> sys_state" where
  "process_kill s = s\<lparr>running := running s - 1, zombies := zombies s + 1\<rparr>"

definition process_wait :: "sys_state \<Rightarrow> sys_state" where
  "process_wait s = s\<lparr>zombies := zombies s - 1\<rparr>"

record completed_process =
  returncode :: int
  cp_stdout :: string
  cp_stderr :: string

definition subprocess_run :: "world \<Rightarrow> run_args \<Rightarrow> completed_process io" where
  "subprocess_run w a =
     (\<lambda>s. case run_child w a (files s) of
             Spawn_failed m \<Rightarrow> (Inl (Error m), s)
           | Exited rc out_bytes err_bytes \<Rightarrow>
               (case decode w out_bytes of
                  Inl m \<Rightarrow> (Inl (Error m), process_wait (child_exit (popen s)))
                | Inr out \<Rightarrow>
                    (case decode w err_bytes of
                       Inl m \<Rightarrow> (Inl (Error m), process_wait (child_exit (popen s)))
                     | Inr err \<Rightarrow>
                         (Inr \<lparr>returncode = rc, cp_stdout = out, cp_stderr = err\<rparr>,
                          process_wait (child_exit (popen s)))))
           | Timed_out m \<Rightarrow>
               (Inl (TimeoutExpired m), process_wait (process_kill (popen s)))
           | Communicate_failed m \<Rightarrow>
               (Inl (Error m), process_wait (process_kill (popen s))))"

definition shutil_rmtree :: "world \<Rightarrow> string \<Rightarrow> unit io" where
  "shutil_rmtree w d =
     (\<lambda>s. case rmtree_result w of
             Removed \<Rightarrow>
               (Inr (), s\<lparr>dirs := dirs s - {d},
                          files := (\<lambda>p. if fst p = d then None else files s p)\<rparr>)
           | Errors_ignored \<Rightarrow> (Inr (), s)
           | Rmtree_raised e \<Rightarrow> (Inl e, s))"

subsection \<open>\<^verbatim>\<open>class CodeExecutor\<close>\<close>

record executor =
  timeout :: int
  max_memory :: string
  temp_dir :: string

definition init :: "world \<Rightarrow> executor io" where
  "init w =
     io_bind (environ_get w ''EXECUTION_TIMEOUT'' ''30'') (\<lambda>t.
     io_bind (io_lift (int_builtin w t)) (\<lambda>n.
     io_bind (environ_get w ''MAX_MEMORY'' ''128m'') (\<lambda>m.
     io_bind (tempfile_mkdtemp w ''execution_'') (\<lambda>d.
     io_return \<lparr>timeout = n, max_memory = m, temp_dir = d\<rparr>))))"

definition cleanup :: "world \<Rightarrow> executor \<Rightarrow> unit io" where
  "cleanup w self =
     try_except (shutil_rmtree w (temp_dir self)) (\<lambda>e. io_return ())"

text \<open>The arguments \<^verbatim>\<open>execute_code\<close> passes to \<^verbatim>\<open>subprocess.run\<close>.\<close>

definition code_file :: "executor \<Rightarrow> string \<times> string" where
  "code_file self = (temp_dir self, ''main.py'')"

definition child_args :: "world \<Rightarrow> executor \<Rightarrow> run_args" where
  "child_args w self =
     \<lparr>argv = [sys_executable w, temp_dir self @ ''/'' @ ''main.py''],
      cwd = temp_dir self,
      timeout_arg = timeout self,
      env = (environ w)(''PYTHONPATH'' \<mapsto> temp_dir self)\<rparr>"

text \<open>The \<^verbatim>\<open>try\<close> block of \<^verbatim>\<open>execute_code\<close> with its two handlers.\<close>

definition execution_attempt :: "world \<Rightarrow> executor \<Rightarrow> pyval \<Rightarrow> execution_result io" where
  "execution_attempt w self code =
     try_except
       (io_bind (open_w w (code_file self)) (\<lambda>f.
        io_bind (file_write w (code_file self) code) (\<lambda>u.
        try_except_timeout
          (io_bind (subprocess_run w (child_args w self)) (\<lambda>result.
           io_return
             \<lparr>success = (returncode result = 0),
              stdout = cp_stdout result,
              stderr = cp_stderr result,
              exit_code = returncode result,
              execution_time =
                FloatNum (float_mul w (float_sub w (time_end w) (time_start w)) 1000)\<rparr>))
          (io_return
             \<lparr>success = False,
              stdout = [],
              stderr = ''Execution timed out after '' @ py_str (timeout self) @ '' seconds'',
              exit_code = - 1,
              execution_time = IntNum (timeout self * 1000)\<rparr>))))
       (\<lambda>e. io_return
          \<lparr>success = False,
           stdout = [],
           stderr = ''Execution error: '' @ exn_str e,
           exit_code = - 1,
           execution_time = IntNum 0\<rparr>)"

definition execute_code :: "world \<Rightarrow> executor \<Rightarrow> pyval \<Rightarrow> pyval \<Rightarrow> execution_result io" where
  "execute_code w self code test_cases =
     try_finally (execution_attempt w self code) (cleanup w self)"

subsection \<open>\<^verbatim>\<open>main\<close>\<close>

definition main :: "world \<Rightarrow> unit io" where
  "main w =
     try_except
       (io_bind (io_lift (stdin_isatty w)) (\<lambda>isatty.
        io_bind (if \<not> isatty then io_lift (stdin_read w) else io_return (unicode_of ''{}''))
          (\<lambda>input_data.
        io_bind (if py_strip input_data \<noteq> [] then io_lift (json_loads w input_data)
                 else io_return (VDict [])) (\<lambda>data.
        io_bind (\<lambda>s. (py_get data ''code'' (VStr []), s)) (\<lambda>code.
        io_bind (\<lambda>s. (py_get data ''test_cases'' (VList []), s)) (\<lambda>test_cases.
        if \<not> truthy code then print (Failure ''No code provided'')
        else
          io_bind (init w) (\<lambda>executor.
          io_bind (execute_code w executor code test_cases) (\<lambda>result.
          print (Result result)))))))))
       (\<lambda>e. print (Failure (''Executor error: '' @ exn_str e)))"

subsection \<open>An example world\<close>

text \<open>
  A request that prints its working directory, an empty environment, and an
  interpreter that knows four programs. Floating-point arithmetic is exact on the
  small integers that the clock shows here. The examples below vary one field at a
  time.
\<close>

definition ex_json_loads :: "unicode \<Rightarrow> string + pyval" where
  \<open>ex_json_loads t =
     (if t = unicode_of ''{}'' then Inr (VDict [])
      else if t = unicode_of ''[]'' then Inr (VList [])
      else if t = unicode_of ''{"code": ""}'' then Inr (VDict [(''code'', VStr [])])
      else if t = unicode_of ''{"code": "import os; print(os.getcwd())"}''
      then Inr (VDict [(''code'', VStr ''import os; print(os.getcwd())'')])
      else Inl ''Expecting value: line 1 column 1 (char 0)'')\<close>

definition ex_int :: "string \<Rightarrow> string + int" where
  "ex_int t =
     (if t = ''30'' then Inr 30
      else Inl (''invalid literal for int() with base 10: '' @ [CHR 0x27] @ t @ [CHR 0x27]))"

text \<open>
  Three programs that do not look at their surroundings: an endless loop, an exit with
  status 2, and one that writes the single byte \<open>0xFF\<close> and exits with status 0.
\<close>

definition ex_child_blind :: "run_args \<Rightarrow> (string \<times> string \<rightharpoonup> string) \<Rightarrow> run_outcome" where
  "ex_child_blind a fs =
     (if fs (cwd a, ''main.py'') = Some ''while True: pass''
      then Timed_out ''timed out''
      else if fs (cwd a, ''main.py'') = Some ''import sys; sys.exit(2)''
      then Exited 2 [] []
      else if fs (cwd a, ''main.py'') = Some ''import os; os.write(1, bytes([255]))''
      then Exited 0 [CHR 0xFF] []
      else Exited 0 [] [])"

text \<open>And one that prints its working directory.\<close>

definition ex_child :: "run_args \<Rightarrow> (string \<times> string \<rightharpoonup> string) \<Rightarrow> run_outcome" where
  "ex_child a fs =
     (if fs (cwd a, ''main.py'') = Some ''import os; print(os.getcwd())''
      then Exited 0 (cwd a @ [CHR 0x0A]) []
      else ex_child_blind a fs)"

text \<open>Decoding that accepts everything but a leading byte \<open>0xFF\<close>.\<close>

definition ex_decode_error :: string where
  "ex_decode_error =
     [CHR 0x27] @ ''utf-8'' @ [CHR 0x27] @ '' codec can'' @ [CHR 0x27]
     @ ''t decode byte 0xff in position 0: invalid start byte''"

definition ex_decode :: "string \<Rightarrow> string + string" where
  "ex_decode b =
     (case b of
        [] \<Rightarrow> Inr []
      | c # cs \<Rightarrow> if c = CHR 0xFF then Inl ex_decode_error else Inr b)"

definition ex_world :: world where
  \<open>ex_world =
     \<lparr>stdin_isatty = Inr False,
      stdin_read = Inr (unicode_of ''{"code": "import os; print(os.getcwd())"}''),
      json_loads = ex_json_loads,
      environ = Map.empty,
      int_builtin = ex_int,
      mkdtemp = (\<lambda>p. Inr (''/tmp/'' @ p @ ''a'')),
      sys_executable = ''/usr/bin/python3'',
      open_result = None,
      write_result = None,
      time_start = 1,
      time_end = 3,
      float_sub = (\<lambda>a b. a - b),
      float_mul = (\<lambda>a b. a * b),
      decode = ex_decode,
      run_child = ex_child,
      rmtree_result = Removed\<rparr>\<close>

text \<open>The same world with another workspace name.\<close>

definition ex_world_b :: world where
  "ex_world_b = ex_world\<lparr>mkdtemp := (\<lambda>p. Inr (''/tmp/'' @ p @ ''b''))\<rparr>"

text \<open>No space is left for a new directory.\<close>

definition ex_world_full :: world where
  "ex_world_full = ex_world\<lparr>mkdtemp := (\<lambda>p. Inl ''[Errno 28] No space left on device'')\<rparr>"

text \<open>No child process can be started.\<close>

definition ex_world_nofork :: world where
  "ex_world_nofork =
     ex_world\<lparr>run_child := (\<lambda>a fs. Spawn_failed ''[Errno 12] Cannot allocate memory'')\<rparr>"

text \<open>The removal of the workspace meets an error, which is ignored.\<close>

definition ex_world_stuck :: world where
  "ex_world_stuck = ex_world\<lparr>rmtree_result := Errors_ignored\<rparr>"

text \<open>Only programs that do not look at their surroundings.\<close>

definition ex_world_blind :: world where
  "ex_world_blind = ex_world\<lparr>run_child := ex_child_blind\<rparr>"

text \<open>Standard input is a pipe that delivers bytes which are not UTF-8.\<close>

definition ex_world_unreadable :: world where
  "ex_world_unreadable = ex_world\<lparr>stdin_read := Inl ex_decode_error\<rparr>"

text \<open>The environment sets a timeout that is not a number.\<close>

definition ex_world_abc :: world where
  "ex_world_abc = ex_world\<lparr>environ := [''EXECUTION_TIMEOUT'' \<mapsto> ''abc'']\<rparr>"

definition ex_state :: sys_state where
  "ex_state =
     \<lparr>dirs = {}, files = Map.empty, spawned = 0, running = 0, zombies = 0,
      env_reads = [], printed = []\<rparr>"

definition ex_executor :: executor where
  "ex_executor = \<lparr>timeout = 30, max_memory = ''128m'', temp_dir = ''/tmp/execution_a''\<rparr>"

definition ex_ready :: sys_state where
  "ex_ready = ex_state\<lparr>dirs := {''/tmp/execution_a''}\<rparr>"

section \<open>Properties\<close>

subsection \<open>Unfolding\<close>

lemmas io_defs = io_return_def io_raise_def io_bind_def io_lift_def try_except_def
  try_except_timeout_def try_finally_def print_def environ_get_def tempfile_mkdtemp_def
  open_w_def file_write_def subprocess_run_def shutil_rmtree_def

lemmas proc_defs = popen_def child_exit_def process_kill_def process_wait_def

subsection \<open>What \<^verbatim>\<open>cleanup\<close> does\<close>

lemma cleanup_returns: "\<exists>s'. cleanup w self s = (Inr (), s')"
  by (cases "rmtree_result w") (simp_all add: cleanup_def io_defs)

lemma cleanup_removed:
  "rmtree_result w = Removed \<Longrightarrow>
   cleanup w self s =
     (Inr (), s\<lparr>dirs := dirs s - {temp_dir self},
                files := (\<lambda>p. if fst p = temp_dir self then None else files s p)\<rparr>)"
  by (simp add: cleanup_def io_defs)

lemma cleanup_processes:
  "spawned (snd (cleanup w self s)) = spawned s \<and>
   running (snd (cleanup w self s)) = running s \<and>
   zombies (snd (cleanup w self s)) = zombies s \<and>
   printed (snd (cleanup w self s)) = printed s \<and>
   env_reads (snd (cleanup w self s)) = env_reads s"
  by (cases "rmtree_result w") (simp_all add: cleanup_def io_defs)

subsection \<open>The paths through the \<^verbatim>\<open>try\<close> block\<close>

text \<open>One lemma for each place where the attempt can end, with the state it leaves.\<close>

lemma attempt_open_failed:
  "open_result w = Some m \<Longrightarrow>
   execution_attempt w self code s =
     (Inr \<lparr>success = False, stdout = [], stderr = ''Execution error: '' @ m,
           exit_code = - 1, execution_time = IntNum 0\<rparr>, s)"
  by (simp add: execution_attempt_def io_defs)

lemma attempt_type_error:
  "open_result w = None \<Longrightarrow> \<forall>t. code \<noteq> VStr t \<Longrightarrow>
   execution_attempt w self code s =
     (Inr \<lparr>success = False, stdout = [],
           stderr = ''Execution error: '' @ ''write() argument must be str, not '' @ argument_name code,
           exit_code = - 1, execution_time = IntNum 0\<rparr>,
      s\<lparr>files := (files s)(code_file self \<mapsto> [])\<rparr>)"
  by (cases code) (simp_all add: execution_attempt_def io_defs)

lemma attempt_write_failed:
  "open_result w = None \<Longrightarrow> write_result w = Some m \<Longrightarrow>
   execution_attempt w self (VStr text) s =
     (Inr \<lparr>success = False, stdout = [], stderr = ''Execution error: '' @ m,
           exit_code = - 1, execution_time = IntNum 0\<rparr>,
      s\<lparr>files := (files s)(code_file self \<mapsto> [])\<rparr>)"
  by (simp add: execution_attempt_def io_defs)

lemma attempt_spawn_failed:
  "open_result w = None \<Longrightarrow> write_result w = None \<Longrightarrow>
   run_child w (child_args w self) ((files s)(code_file self \<mapsto> text)) = Spawn_failed m \<Longrightarrow>
   execution_attempt w self (VStr text) s =
     (Inr \<lparr>success = False, stdout = [], stderr = ''Execution error: '' @ m,
           exit_code = - 1, execution_time = IntNum 0\<rparr>,
      s\<lparr>files := (files s)(code_file self \<mapsto> text)\<rparr>)"
  by (simp add: execution_attempt_def io_defs)

lemma attempt_communicate_failed:
  "open_result w = None \<Longrightarrow> write_result w = None \<Longrightarrow>
   run_child w (child_args w self) ((files s)(code_file self \<mapsto> text)) = Communicate_failed m \<Longrightarrow>
   execution_attempt w self (VStr text) s =
     (Inr \<lparr>success = False, stdout = [], stderr = ''Execution error: '' @ m,
           exit_code = - 1, execution_time = IntNum 0\<rparr>,
      process_wait (process_kill (popen (s\<lparr>files := (files s)(code_file self \<mapsto> text)\<rparr>))))"
  by (simp add: execution_attempt_def io_defs)

lemma attempt_timed_out:
  "open_result w = None \<Longrightarrow> write_result w = None \<Longrightarrow>
   run_child w (child_args w self) ((files s)(code_file self \<mapsto> text)) = Timed_out m \<Longrightarrow>
   execution_attempt w self (VStr text) s =
     (Inr \<lparr>success = False, stdout = [],
           stderr = ''Execution timed out after '' @ py_str (timeout self) @ '' seconds'',
           exit_code = - 1, execution_time = IntNum (timeout self * 1000)\<rparr>,
      process_wait (process_kill (popen (s\<lparr>files := (files s)(code_file self \<mapsto> text)\<rparr>))))"
  by (simp add: execution_attempt_def io_defs)

lemma attempt_exited:
  "open_result w = None \<Longrightarrow> write_result w = None \<Longrightarrow>
   run_child w (child_args w self) ((files s)(code_file self \<mapsto> text)) = Exited rc ob eb \<Longrightarrow>
   decode w ob = Inr out \<Longrightarrow> decode w eb = Inr err \<Longrightarrow>
   execution_attempt w self (VStr text) s =
     (Inr \<lparr>success = (rc = 0), stdout = out, stderr = err, exit_code = rc,
           execution_time =
             FloatNum (float_mul w (float_sub w (time_end w) (time_start w)) 1000)\<rparr>,
      process_wait (child_exit (popen (s\<lparr>files := (files s)(code_file self \<mapsto> text)\<rparr>))))"
  by (simp add: execution_attempt_def io_defs)

lemma attempt_undecodable:
  "open_result w = None \<Longrightarrow> write_result w = None \<Longrightarrow>
   run_child w (child_args w self) ((files s)(code_file self \<mapsto> text)) = Exited rc ob eb \<Longrightarrow>
   decode w ob = Inl m \<or> decode w ob = Inr out \<and> decode w eb = Inl m \<Longrightarrow>
   execution_attempt w self (VStr text) s =
     (Inr \<lparr>success = False, stdout = [], stderr = ''Execution error: '' @ m,
           exit_code = - 1, execution_time = IntNum 0\<rparr>,
      process_wait (child_exit (popen (s\<lparr>files := (files s)(code_file self \<mapsto> text)\<rparr>))))"
  by (auto simp: execution_attempt_def io_defs)

lemma attempt_returns: "\<exists>r s'. execution_attempt w self code s = (Inr r, s')"
proof (cases "open_result w")
  case (Some m)
  then show ?thesis by (simp add: attempt_open_failed)
next
  case None
  show ?thesis
  proof (cases "\<exists>t. code = VStr t")
    case False
    with None show ?thesis by (simp add: attempt_type_error)
  next
    case True
    then obtain t where c: "code = VStr t" by blast
    show ?thesis
    proof (cases "write_result w")
      case (Some m)
      with None c show ?thesis by (simp add: attempt_write_failed)
    next
      case wn: None
      show ?thesis
      proof (cases "run_child w (child_args w self) ((files s)(code_file self \<mapsto> t))")
        case (Exited rc ob eb)
        show ?thesis
        proof (cases "decode w ob")
          case (Inl m)
          with Exited None wn c show ?thesis by (simp add: attempt_undecodable)
        next
          case out: (Inr out)
          show ?thesis
          proof (cases "decode w eb")
            case (Inl m)
            with Exited None wn c out show ?thesis
              by (simp add: attempt_undecodable [where out = out])
          next
            case (Inr err)
            with Exited None wn c out show ?thesis by (simp add: attempt_exited)
          qed
        qed
      qed (simp_all add: c None wn attempt_spawn_failed attempt_communicate_failed
              attempt_timed_out)
    qed
  qed
qed

subsection \<open>\<^verbatim>\<open>finally\<close>\<close>

lemma execute_code_split:
  "execute_code w self code tc s =
     (fst (execution_attempt w self code s),
      snd (cleanup w self (snd (execution_attempt w self code s))))"
proof -
  obtain r s1 where a: "execution_attempt w self code s = (r, s1)" by (cases "execution_attempt w self code s")
  obtain s2 where c: "cleanup w self s1 = (Inr (), s2)" using cleanup_returns by blast
  show ?thesis by (simp add: execute_code_def try_finally_def a c)
qed

lemma execute_code_returns: "\<exists>r s'. execute_code w self code tc s = (Inr r, s')"
  using attempt_returns [of w self code s] by (auto simp: execute_code_split)


subsection \<open>The paths through \<^verbatim>\<open>main\<close>\<close>

lemma print_returns: "print m s = (Inr (), s\<lparr>printed := printed s @ [m]\<rparr>)"
  by (simp add: print_def)

lemma try_except_print_returns:
  fixes m :: "unit io"
  shows "fst (try_except m (\<lambda>e. print (g e)) s) = Inr ()"
  by (cases "m s") (auto simp: try_except_def print_def split: sum.splits)

lemma main_returns: "fst (main w s) = Inr ()"
  unfolding main_def by (rule try_except_print_returns)

lemmas ex_defs = ex_json_loads_def ex_int_def ex_child_def ex_child_blind_def ex_decode_def
  ex_decode_error_def ex_world_def ex_state_def ex_executor_def ex_ready_def ex_world_b_def
  ex_world_full_def ex_world_nofork_def ex_world_stuck_def ex_world_abc_def
  ex_world_blind_def ex_world_unreadable_def

lemmas model_defs = main_def init_def execute_code_def execution_attempt_def cleanup_def
  child_args_def code_file_def io_defs proc_defs py_strip_def py_isspace_def py_str_def
  unicode_of_def

lemma strip_empty_object: "py_strip (unicode_of ''{}'') \<noteq> []"
  by (simp add: py_strip_def py_isspace_def unicode_of_def)

lemma main_unreadable:
  assumes "stdin_isatty w = Inl m \<or> stdin_isatty w = Inr False \<and> stdin_read w = Inl m"
  shows "main w s = (Inr (), s\<lparr>printed := printed s @ [Failure (''Executor error: '' @ m)]\<rparr>)"
  using assms
  by (auto simp: main_def io_return_def io_raise_def io_bind_def io_lift_def try_except_def
        print_def)

lemma main_falsy_code:
  assumes "stdin_isatty w = Inr True \<and> json_loads w (unicode_of ''{}'') = Inr (VDict kvs) \<or>
           stdin_isatty w = Inr False \<and> stdin_read w = Inr t \<and> py_strip t = [] \<and> kvs = [] \<or>
           stdin_isatty w = Inr False \<and> stdin_read w = Inr t \<and> py_strip t \<noteq> [] \<and>
             json_loads w t = Inr (VDict kvs)"
    and "\<not> truthy (case map_of kvs ''code'' of None \<Rightarrow> VStr [] | Some v \<Rightarrow> v)"
  shows "main w s = (Inr (), s\<lparr>printed := printed s @ [Failure ''No code provided'']\<rparr>)"
  using assms
  by (auto simp: main_def io_return_def io_raise_def io_bind_def io_lift_def try_except_def
        print_def strip_empty_object)

lemma main_with_code:
  assumes "stdin_isatty w = Inr True \<and> json_loads w (unicode_of ''{}'') = Inr (VDict kvs) \<or>
           stdin_isatty w = Inr False \<and> stdin_read w = Inr t \<and> py_strip t \<noteq> [] \<and>
             json_loads w t = Inr (VDict kvs)"
    and "map_of kvs ''code'' = Some c" and "truthy c"
  shows "main w s =
     try_except
       (io_bind (init w) (\<lambda>executor.
        io_bind (execute_code w executor c
                   (case map_of kvs ''test_cases'' of None \<Rightarrow> VList [] | Some v \<Rightarrow> v))
          (\<lambda>result. print (Result result))))
       (\<lambda>e. print (Failure (''Executor error: '' @ exn_str e))) s"
  using assms
  by (auto simp: main_def io_return_def io_raise_def io_bind_def io_lift_def try_except_def
        strip_empty_object)

lemma main_parse_error:
  assumes "stdin_isatty w = Inr False" and "stdin_read w = Inr t" and "py_strip t \<noteq> []"
    and "json_loads w t = Inl m"
  shows "main w s = (Inr (), s\<lparr>printed := printed s @ [Failure (''Executor error: '' @ m)]\<rparr>)"
  using assms
  by (simp add: main_def io_return_def io_raise_def io_bind_def io_lift_def try_except_def
        print_def)

lemma main_not_an_object:
  assumes "stdin_isatty w = Inr False" and "stdin_read w = Inr t" and "py_strip t \<noteq> []"
    and "json_loads w t = Inr v" and "\<forall>kvs. v \<noteq> VDict kvs"
  shows "main w s =
    (Inr (), s\<lparr>printed := printed s @
       [Failure (''Executor error: '' @ [CHR 0x27] @ type_name v @ [CHR 0x27]
                 @ '' object has no attribute '' @ [CHR 0x27] @ ''get'' @ [CHR 0x27])]\<rparr>)"
  using assms
  by (cases v)
     (simp_all add: main_def io_return_def io_raise_def io_bind_def io_lift_def try_except_def
        print_def)

subsection \<open>The constructor\<close>

lemma init_bad_timeout:
  assumes "environ w ''EXECUTION_TIMEOUT'' = Some v" and "int_builtin w v = Inl m"
  shows "init w s = (Inl (Error m), s\<lparr>env_reads := env_reads s @ [''EXECUTION_TIMEOUT'']\<rparr>)"
  using assms by (simp add: init_def io_defs)

lemma init_success:
  assumes "init w s = (Inr ex, s')"
  shows "env_reads s' = env_reads s @ [''EXECUTION_TIMEOUT'', ''MAX_MEMORY''] \<and>
         int_builtin w (case environ w ''EXECUTION_TIMEOUT'' of None \<Rightarrow> ''30'' | Some v \<Rightarrow> v)
           = Inr (timeout ex) \<and>
         max_memory ex = (case environ w ''MAX_MEMORY'' of None \<Rightarrow> ''128m'' | Some v \<Rightarrow> v) \<and>
         mkdtemp w ''execution_'' = Inr (temp_dir ex) \<and>
         dirs s' = insert (temp_dir ex) (dirs s) \<and>
         spawned s' = spawned s"
  using assms by (auto simp: init_def io_defs split: sum.splits)

section \<open>The claims\<close>

text \<open>
  \<^bold>\<open>C1\<close> (as the code has it). For every world, executor, code and outcome of the
  attempt: \<^verbatim>\<open>cleanup\<close> never raises, whatever \<^verbatim>\<open>rmtree\<close> does;
  \<^verbatim>\<open>execute_code\<close> returns the result of its \<^verbatim>\<open>try\<close> block unchanged, on
  the state that \<^verbatim>\<open>cleanup\<close> leaves, so a failure during removal is swallowed
  and never replaces the result; and when the removal does not fail, the workspace
  directory is gone when \<^verbatim>\<open>execute_code\<close> returns.
\<close>

theorem execute_code_cleanup:
  "fst (cleanup w self s0) = Inr () \<and>
   execute_code w self code tc s =
     (fst (execution_attempt w self code s),
      snd (cleanup w self (snd (execution_attempt w self code s)))) \<and>
   (\<exists>r. fst (execute_code w self code tc s) = Inr r) \<and>
   (rmtree_result w = Removed \<longrightarrow> temp_dir self \<notin> dirs (snd (execute_code w self code tc s)))"
proof -
  have 1: "fst (cleanup w self s0) = Inr ()"
    using cleanup_returns [of w self s0] by auto
  have 2: "execute_code w self code tc s =
     (fst (execution_attempt w self code s),
      snd (cleanup w self (snd (execution_attempt w self code s))))"
    by (rule execute_code_split)
  have 3: "\<exists>r. fst (execute_code w self code tc s) = Inr r"
    using execute_code_returns [of w self code tc s] by auto
  have 4: "temp_dir self \<notin> dirs (snd (execute_code w self code tc s))"
    if "rmtree_result w = Removed"
    using that by (simp add: execute_code_split cleanup_removed)
  from 1 2 3 4 show ?thesis by blast
qed

text \<open>The removal succeeds in the example world, and the workspace is gone.\<close>

theorem execute_code_cleanup_witness:
  "rmtree_result ex_world = Removed \<and>
   temp_dir ex_executor \<notin>
     dirs (snd (execute_code ex_world ex_executor (VStr ''import sys; sys.exit(2)'') (VList []) ex_ready))"
proof -
  have h: "rmtree_result ex_world = Removed"
    by (simp add: ex_world_def)
  with execute_code_cleanup [of ex_world ex_executor ex_ready
      "VStr ''import sys; sys.exit(2)''" "VList []" ex_ready]
  show ?thesis by blast
qed

text \<open>
  \<^bold>\<open>C1\<close> as stated promises that the directory is removed on every path. With
  \<^verbatim>\<open>ignore_errors=True\<close> a removal that fails is silent: here the child exits
  with status 2, \<^verbatim>\<open>rmtree\<close> meets an error, the result is returned intact and
  the workspace \<^verbatim>\<open>/tmp/execution_a\<close> with its \<^verbatim>\<open>main.py\<close> is still there.
\<close>

theorem workspace_left_behind:
  "temp_dir ex_executor \<in> dirs ex_ready \<and>
   execute_code ex_world_stuck ex_executor
       (VStr ''import sys; sys.exit(2)'') (VList []) ex_ready =
     (Inr \<lparr>success = False, stdout = [], stderr = [], exit_code = 2,
           execution_time = FloatNum 2000\<rparr>,
      ex_ready\<lparr>files := [(''/tmp/execution_a'', ''main.py'') \<mapsto> ''import sys; sys.exit(2)''],
               spawned := 1\<rparr>) \<and>
   temp_dir ex_executor \<in>
     dirs (snd (execute_code ex_world_stuck ex_executor
                  (VStr ''import sys; sys.exit(2)'') (VList []) ex_ready))"
  by (simp add: model_defs ex_defs)

text \<open>
  \<^bold>\<open>C2\<close>. When the source file is written and the child is still running when the
  timeout expires, \<^verbatim>\<open>execute_code\<close> returns exactly: no success, empty stdout,
  stderr \<^verbatim>\<open>Execution timed out after {timeout} seconds\<close>, exit code \<open>-1\<close> and
  an execution time of \<open>timeout * 1000\<close>: the configured timeout in milliseconds, not
  the time that elapsed.
\<close>

theorem execute_code_timeout:
  assumes "open_result w = None" and "write_result w = None"
    and "run_child w (child_args w self) ((files s)(code_file self \<mapsto> code)) = Timed_out m"
  shows "fst (execute_code w self (VStr code) tc s) =
     Inr \<lparr>success = False, stdout = [],
          stderr = ''Execution timed out after '' @ py_str (timeout self) @ '' seconds'',
          exit_code = - 1, execution_time = IntNum (timeout self * 1000)\<rparr>"
  using assms by (simp add: execute_code_split attempt_timed_out)

text \<open>An endless loop under the default timeout of 30 seconds.\<close>

theorem execute_code_timeout_witness:
  "open_result ex_world = None \<and> write_result ex_world = None \<and>
   run_child ex_world (child_args ex_world ex_executor)
     ((files ex_ready)(code_file ex_executor \<mapsto> ''while True: pass'')) = Timed_out ''timed out'' \<and>
   fst (execute_code ex_world ex_executor (VStr ''while True: pass'') (VList []) ex_ready) =
     Inr \<lparr>success = False, stdout = [], stderr = ''Execution timed out after 30 seconds'',
          exit_code = - 1, execution_time = IntNum 30000\<rparr>"
proof -
  have h: "open_result ex_world = None" "write_result ex_world = None"
    "run_child ex_world (child_args ex_world ex_executor)
       ((files ex_ready)(code_file ex_executor \<mapsto> ''while True: pass'')) = Timed_out ''timed out''"
    by (simp_all add: ex_defs child_args_def code_file_def)
  have p: "py_str (timeout ex_executor) = ''30''" "timeout ex_executor * 1000 = 30000"
    by (simp_all add: ex_executor_def py_str_def)
  show ?thesis
    using h execute_code_timeout [OF h, of "VList []"] by (simp add: p)
qed




text \<open>
  \<^bold>\<open>C4\<close> (as the code has it). No exception leaves \<^verbatim>\<open>execute_code\<close>. A fault
  with message \<open>m\<close> raised inside it (opening the source file, writing it, starting
  the child, reading from its pipes, or decoding its output) gives exactly: no success, empty stdout,
  stderr \<^verbatim>\<open>Execution error: {m}\<close>, exit code \<open>-1\<close>, execution time \<open>0\<close>; so
  does the \<^verbatim>\<open>TypeError\<close> of writing a code value that is not a string. Creating
  the workspace directory is not part of \<^verbatim>\<open>execute_code\<close>: when
  \<^verbatim>\<open>mkdtemp\<close> fails, the constructor raises.
\<close>

theorem execute_code_fault:
  "(\<exists>r. fst (execute_code w self code tc s) = Inr r) \<and>
   (open_result w = Some m \<or>
    open_result w = None \<and> write_result w = Some m \<or>
    open_result w = None \<and> write_result w = None \<and>
      (run_child w (child_args w self) ((files s)(code_file self \<mapsto> src)) = Spawn_failed m \<or>
       run_child w (child_args w self) ((files s)(code_file self \<mapsto> src)) = Communicate_failed m \<or>
       run_child w (child_args w self) ((files s)(code_file self \<mapsto> src)) = Exited rc ob eb \<and>
         (decode w ob = Inl m \<or> decode w ob = Inr out \<and> decode w eb = Inl m))
    \<longrightarrow> fst (execute_code w self (VStr src) tc s) =
          Inr \<lparr>success = False, stdout = [], stderr = ''Execution error: '' @ m,
               exit_code = - 1, execution_time = IntNum 0\<rparr>) \<and>
   (open_result w = None \<and> (\<forall>t. code \<noteq> VStr t)
    \<longrightarrow> fst (execute_code w self code tc s) =
          Inr \<lparr>success = False, stdout = [],
               stderr = ''Execution error: '' @ ''write() argument must be str, not '' @ argument_name code,
               exit_code = - 1, execution_time = IntNum 0\<rparr>) \<and>
   (int_builtin w (case environ w ''EXECUTION_TIMEOUT'' of None \<Rightarrow> ''30'' | Some v \<Rightarrow> v) = Inr n \<and>
    mkdtemp w ''execution_'' = Inl m
    \<longrightarrow> init w s =
          (Inl (Error m), s\<lparr>env_reads := env_reads s @ [''EXECUTION_TIMEOUT'', ''MAX_MEMORY'']\<rparr>))"
proof -
  have 1: "\<exists>r. fst (execute_code w self code tc s) = Inr r"
    using execute_code_returns [of w self code tc s] by auto
  have 2: "fst (execute_code w self (VStr src) tc s) =
          Inr \<lparr>success = False, stdout = [], stderr = ''Execution error: '' @ m,
               exit_code = - 1, execution_time = IntNum 0\<rparr>"
    if "open_result w = Some m \<or>
        open_result w = None \<and> write_result w = Some m \<or>
        open_result w = None \<and> write_result w = None \<and>
        (run_child w (child_args w self) ((files s)(code_file self \<mapsto> src)) = Spawn_failed m \<or>
         run_child w (child_args w self) ((files s)(code_file self \<mapsto> src)) = Communicate_failed m \<or>
         run_child w (child_args w self) ((files s)(code_file self \<mapsto> src)) = Exited rc ob eb \<and>
           (decode w ob = Inl m \<or> decode w ob = Inr out \<and> decode w eb = Inl m))"
    using that
    by (auto simp: execute_code_split attempt_open_failed attempt_write_failed
          attempt_spawn_failed attempt_communicate_failed attempt_undecodable)
  have 3: "fst (execute_code w self code tc s) =
          Inr \<lparr>success = False, stdout = [],
               stderr = ''Execution error: '' @ ''write() argument must be str, not '' @ argument_name code,
               exit_code = - 1, execution_time = IntNum 0\<rparr>"
    if "open_result w = None \<and> (\<forall>t. code \<noteq> VStr t)"
    using that by (simp add: execute_code_split attempt_type_error)
  have 4: "init w s =
          (Inl (Error m), s\<lparr>env_reads := env_reads s @ [''EXECUTION_TIMEOUT'', ''MAX_MEMORY'']\<rparr>)"
    if "int_builtin w (case environ w ''EXECUTION_TIMEOUT'' of None \<Rightarrow> ''30'' | Some v \<Rightarrow> v) = Inr n \<and>
        mkdtemp w ''execution_'' = Inl m"
    using that by (simp add: init_def io_defs)
  from 1 2 3 4 show ?thesis by blast
qed

text \<open>
  One world for each kind of fault: the file cannot be opened, the child cannot be
  started, the code is the number 5, the directory cannot be created.
\<close>

theorem execute_code_fault_witness:
  "open_result (ex_world\<lparr>open_result := Some ''[Errno 13] Permission denied''\<rparr>)
     = Some ''[Errno 13] Permission denied'' \<and>
   fst (execute_code (ex_world\<lparr>open_result := Some ''[Errno 13] Permission denied''\<rparr>)
          ex_executor (VStr ''while True: pass'') (VList []) ex_ready) =
     Inr \<lparr>success = False, stdout = [],
          stderr = ''Execution error: [Errno 13] Permission denied'',
          exit_code = - 1, execution_time = IntNum 0\<rparr> \<and>
   run_child ex_world_nofork
       (child_args ex_world_nofork
          ex_executor)
       ((files ex_ready)(code_file ex_executor \<mapsto> ''while True: pass''))
     = Spawn_failed ''[Errno 12] Cannot allocate memory'' \<and>
   fst (execute_code ex_world_nofork
          ex_executor (VStr ''while True: pass'') (VList []) ex_ready) =
     Inr \<lparr>success = False, stdout = [],
          stderr = ''Execution error: [Errno 12] Cannot allocate memory'',
          exit_code = - 1, execution_time = IntNum 0\<rparr> \<and>
   open_result ex_world = None \<and> (\<forall>t. VInt 5 \<noteq> VStr t) \<and>
   fst (execute_code ex_world ex_executor (VInt 5) (VList []) ex_ready) =
     Inr \<lparr>success = False, stdout = [],
          stderr = ''Execution error: write() argument must be str, not int'',
          exit_code = - 1, execution_time = IntNum 0\<rparr> \<and>
   mkdtemp ex_world_full ''execution_''
     = Inl ''[Errno 28] No space left on device'' \<and>
   init ex_world_full ex_state =
     (Inl (Error ''[Errno 28] No space left on device''),
      ex_state\<lparr>env_reads := [''EXECUTION_TIMEOUT'', ''MAX_MEMORY'']\<rparr>)"
  using execute_code_fault [of "ex_world\<lparr>open_result := Some ''[Errno 13] Permission denied''\<rparr>"
      ex_executor "VInt 5" "VList []" ex_ready "''[Errno 13] Permission denied''" "''while True: pass''"]
    execute_code_fault [of ex_world_nofork
      ex_executor "VInt 5" "VList []" ex_ready "''[Errno 12] Cannot allocate memory''" "''while True: pass''"]
    execute_code_fault [of ex_world ex_executor "VInt 5" "VList []" ex_ready]
    execute_code_fault [where w = ex_world_full and s = ex_state
      and m = "''[Errno 28] No space left on device''" and n = 30]
  by (simp add: ex_world_def ex_world_full_def ex_world_nofork_def ex_state_def ex_int_def)

text \<open>
  \<^bold>\<open>C4\<close> as stated counts workspace setup among the faults that \<^verbatim>\<open>execute_code\<close>
  turns into an \<^verbatim>\<open>Execution error\<close> result. The workspace is created by the
  constructor: when \<^verbatim>\<open>mkdtemp\<close> fails, \<^verbatim>\<open>execute_code\<close> is never entered and
  \<^verbatim>\<open>main\<close> prints the top-level \<^verbatim>\<open>Executor error\<close> message, which has no
  stdout, stderr, exit code or execution time.
\<close>

theorem workspace_fault_reported_by_main:
  "init ex_world_full ex_state =
     (Inl (Error ''[Errno 28] No space left on device''),
      ex_state\<lparr>env_reads := [''EXECUTION_TIMEOUT'', ''MAX_MEMORY'']\<rparr>) \<and>
   main ex_world_full ex_state =
     (Inr (),
      ex_state\<lparr>env_reads := [''EXECUTION_TIMEOUT'', ''MAX_MEMORY''],
               printed := [Failure ''Executor error: [Errno 28] No space left on device'']\<rparr>)"
  by (simp add: model_defs ex_defs)

text \<open>
  \<^bold>\<open>C5\<close>. However the request becomes a dictionary (standard input is a terminal,
  the text is empty or blank, or the text parses to an object), when its
  \<^verbatim>\<open>code\<close> key is absent or holds the empty string, \<^verbatim>\<open>main\<close> returns
  having printed the single message \<^verbatim>\<open>{success: false, error: "No code provided"}\<close>
  and changed nothing else: no child is spawned and no workspace is created.
\<close>

theorem main_no_code:
  assumes "stdin_isatty w = Inr True \<and> json_loads w (unicode_of ''{}'') = Inr (VDict kvs) \<or>
           stdin_isatty w = Inr False \<and> stdin_read w = Inr t \<and> py_strip t = [] \<and> kvs = [] \<or>
           stdin_isatty w = Inr False \<and> stdin_read w = Inr t \<and> py_strip t \<noteq> [] \<and>
             json_loads w t = Inr (VDict kvs)"
    and "map_of kvs ''code'' = None \<or> map_of kvs ''code'' = Some (VStr [])"
  shows "main w s = (Inr (), s\<lparr>printed := printed s @ [Failure ''No code provided'']\<rparr>) \<and>
         spawned (snd (main w s)) = spawned s \<and>
         dirs (snd (main w s)) = dirs s"
proof -
  from assms(2) have "\<not> truthy (case map_of kvs ''code'' of None \<Rightarrow> VStr [] | Some v \<Rightarrow> v)"
    by auto
  with assms(1) have "main w s = (Inr (), s\<lparr>printed := printed s @ [Failure ''No code provided'']\<rparr>)"
    by (rule main_falsy_code)
  then show ?thesis by simp
qed

text \<open>The request \<^verbatim>\<open>{"code": ""}\<close>.\<close>

theorem main_no_code_witness:
  \<open>stdin_isatty ex_world = Inr False \<and>
   stdin_read (ex_world\<lparr>stdin_read := Inr (unicode_of ''{"code": ""}'')\<rparr>)
     = Inr (unicode_of ''{"code": ""}'') \<and>
   py_strip (unicode_of ''{"code": ""}'') \<noteq> [] \<and>
   map_of [(''code'', VStr [])] ''code'' = Some (VStr []) \<and>
   json_loads ex_world (unicode_of ''{"code": ""}'') = Inr (VDict [(''code'', VStr [])]) \<and>
   main (ex_world\<lparr>stdin_read := Inr (unicode_of ''{"code": ""}'')\<rparr>) ex_state =
     (Inr (), ex_state\<lparr>printed := [Failure ''No code provided'']\<rparr>)\<close>
  using main_no_code [of \<open>ex_world\<lparr>stdin_read := Inr (unicode_of ''{"code": ""}'')\<rparr>\<close>
      "[(''code'', VStr [])]" \<open>unicode_of ''{"code": ""}''\<close> ex_state]
  by (simp add: ex_world_def ex_state_def ex_json_loads_def py_strip_def py_isspace_def
        unicode_of_def)

text \<open>
  \<^bold>\<open>C6\<close> (as the code has it). \<^verbatim>\<open>main\<close> never raises. A terminal on standard
  input, or a text that is empty or consists of white space, is treated as the empty
  object: the only effect is the message \<^verbatim>\<open>No code provided\<close>. A channel that
  cannot be read (\<^verbatim>\<open>isatty()\<close> or \<^verbatim>\<open>read()\<close> raises with message \<open>m\<close>), a
  text that \<^verbatim>\<open>json.loads\<close> rejects with message \<open>m\<close>, and a text that parses to
  something other than an object each have as their only effect one message
  \<^verbatim>\<open>{success: false, error: "Executor error: ..."}\<close>: the state is otherwise
  unchanged, so the executor is never constructed and nothing is run.
\<close>

theorem main_decode:
  "fst (main w s) = Inr () \<and>
   (stdin_isatty w = Inr True \<and> json_loads w (unicode_of ''{}'') = Inr (VDict []) \<or>
    stdin_isatty w = Inr False \<and> stdin_read w = Inr t \<and> py_strip t = []
    \<longrightarrow> main w s = (Inr (), s\<lparr>printed := printed s @ [Failure ''No code provided'']\<rparr>)) \<and>
   (stdin_isatty w = Inl m \<or>
    stdin_isatty w = Inr False \<and> stdin_read w = Inl m \<or>
    stdin_isatty w = Inr False \<and> stdin_read w = Inr t \<and> py_strip t \<noteq> [] \<and> json_loads w t = Inl m
    \<longrightarrow> main w s = (Inr (), s\<lparr>printed := printed s @ [Failure (''Executor error: '' @ m)]\<rparr>)) \<and>
   (stdin_isatty w = Inr False \<and> stdin_read w = Inr t \<and> py_strip t \<noteq> [] \<and> json_loads w t = Inr v \<and>
    (\<forall>kvs. v \<noteq> VDict kvs)
    \<longrightarrow> main w s =
        (Inr (), s\<lparr>printed := printed s @
           [Failure (''Executor error: '' @ [CHR 0x27] @ type_name v @ [CHR 0x27]
                     @ '' object has no attribute '' @ [CHR 0x27] @ ''get'' @ [CHR 0x27])]\<rparr>))"
proof -
  have 1: "fst (main w s) = Inr ()" by (rule main_returns)
  have 2: "main w s = (Inr (), s\<lparr>printed := printed s @ [Failure ''No code provided'']\<rparr>)"
    if "stdin_isatty w = Inr True \<and> json_loads w (unicode_of ''{}'') = Inr (VDict []) \<or>
        stdin_isatty w = Inr False \<and> stdin_read w = Inr t \<and> py_strip t = []"
    using that main_falsy_code [of w "[]" t s] by auto
  have 3: "main w s = (Inr (), s\<lparr>printed := printed s @ [Failure (''Executor error: '' @ m)]\<rparr>)"
    if "stdin_isatty w = Inl m \<or>
        stdin_isatty w = Inr False \<and> stdin_read w = Inl m \<or>
        stdin_isatty w = Inr False \<and> stdin_read w = Inr t \<and> py_strip t \<noteq> [] \<and> json_loads w t = Inl m"
    using that main_unreadable [of w m s] main_parse_error [of w t m s] by blast
  have 4: "main w s =
        (Inr (), s\<lparr>printed := printed s @
           [Failure (''Executor error: '' @ [CHR 0x27] @ type_name v @ [CHR 0x27]
                     @ '' object has no attribute '' @ [CHR 0x27] @ ''get'' @ [CHR 0x27])]\<rparr>)"
    if "stdin_isatty w = Inr False \<and> stdin_read w = Inr t \<and> py_strip t \<noteq> [] \<and> json_loads w t = Inr v \<and>
        (\<forall>kvs. v \<noteq> VDict kvs)"
    using that by (simp add: main_not_an_object)
  from 1 2 3 4 show ?thesis by blast
qed

text \<open>
  A terminal; a line feed between a no-break space and an em space; a pipe that
  cannot be decoded; a truncated object; a JSON array.
\<close>

theorem main_decode_witness:
  "stdin_isatty (ex_world\<lparr>stdin_isatty := Inr True\<rparr>) = Inr True \<and>
   json_loads ex_world (unicode_of ''{}'') = Inr (VDict []) \<and>
   main (ex_world\<lparr>stdin_isatty := Inr True\<rparr>) ex_state =
     (Inr (), ex_state\<lparr>printed := [Failure ''No code provided'']\<rparr>) \<and>
   py_strip [0xA0, 0x0A, 0x2003] = [] \<and>
   main (ex_world\<lparr>stdin_read := Inr [0xA0, 0x0A, 0x2003]\<rparr>) ex_state =
     (Inr (), ex_state\<lparr>printed := [Failure ''No code provided'']\<rparr>) \<and>
   stdin_read ex_world_unreadable = Inl ex_decode_error \<and>
   main ex_world_unreadable ex_state =
     (Inr (), ex_state\<lparr>printed := [Failure (''Executor error: '' @ ex_decode_error)]\<rparr>) \<and>
   py_strip (unicode_of ''{code'') \<noteq> [] \<and>
   json_loads ex_world (unicode_of ''{code'') = Inl ''Expecting value: line 1 column 1 (char 0)'' \<and>
   main (ex_world\<lparr>stdin_read := Inr (unicode_of ''{code'')\<rparr>) ex_state =
     (Inr (), ex_state\<lparr>printed :=
        [Failure ''Executor error: Expecting value: line 1 column 1 (char 0)'']\<rparr>) \<and>
   py_strip (unicode_of ''[]'') \<noteq> [] \<and>
   json_loads ex_world (unicode_of ''[]'') = Inr (VList []) \<and> (\<forall>kvs. VList [] \<noteq> VDict kvs) \<and>
   main (ex_world\<lparr>stdin_read := Inr (unicode_of ''[]'')\<rparr>) ex_state =
     (Inr (), ex_state\<lparr>printed :=
        [Failure (''Executor error: '' @ [CHR 0x27] @ ''list'' @ [CHR 0x27]
                  @ '' object has no attribute '' @ [CHR 0x27] @ ''get'' @ [CHR 0x27])]\<rparr>)"
  using main_decode [of "ex_world\<lparr>stdin_isatty := Inr True\<rparr>" ex_state]
    main_decode [of "ex_world\<lparr>stdin_read := Inr [0xA0, 0x0A, 0x2003]\<rparr>" ex_state
       "[0xA0, 0x0A, 0x2003]"]
    main_decode [of ex_world_unreadable ex_state _ ex_decode_error]
    main_decode [of "ex_world\<lparr>stdin_read := Inr (unicode_of ''{code'')\<rparr>" ex_state
       "unicode_of ''{code''" "''Expecting value: line 1 column 1 (char 0)''"]
    main_decode [of "ex_world\<lparr>stdin_read := Inr (unicode_of ''[]'')\<rparr>" ex_state
       "unicode_of ''[]''" _ "VList []"]
  by (simp add: ex_world_def ex_world_unreadable_def ex_state_def ex_json_loads_def
        py_strip_def py_isspace_def unicode_of_def)

text \<open>
  \<^bold>\<open>C6\<close> as stated treats a channel that is not readable as the empty object. Only
  a terminal is: here standard input is a pipe whose bytes are not UTF-8,
  \<^verbatim>\<open>read()\<close> raises, and the message is \<^verbatim>\<open>Executor error\<close> with the message of
  the exception, not \<^verbatim>\<open>No code provided\<close>.
\<close>

theorem unreadable_input_is_an_error:
  "stdin_isatty ex_world_unreadable = Inr False \<and>
   stdin_read ex_world_unreadable = Inl ex_decode_error \<and>
   main ex_world_unreadable ex_state =
     (Inr (), ex_state\<lparr>printed := [Failure (''Executor error: '' @ ex_decode_error)]\<rparr>) \<and>
   main ex_world_unreadable ex_state \<noteq>
     (Inr (), ex_state\<lparr>printed := [Failure ''No code provided'']\<rparr>)"
  by (simp add: model_defs ex_defs)

text \<open>
  \<^bold>\<open>C7\<close>. When the child is still running at the timeout, one child was started
  and, when \<^verbatim>\<open>execute_code\<close> returns, it is neither running nor waiting to be
  reaped: \<^verbatim>\<open>subprocess.run\<close> killed it and waited for it before raising
  \<^verbatim>\<open>TimeoutExpired\<close>, and nothing after that starts a process.
\<close>

theorem timeout_reaps_child:
  assumes "open_result w = None" and "write_result w = None"
    and "run_child w (child_args w self) ((files s)(code_file self \<mapsto> code)) = Timed_out m"
  shows "spawned (snd (execute_code w self (VStr code) tc s)) = spawned s + 1 \<and>
         running (snd (execute_code w self (VStr code) tc s)) = running s \<and>
         zombies (snd (execute_code w self (VStr code) tc s)) = zombies s"
  using assms
  by (simp add: execute_code_split attempt_timed_out cleanup_processes proc_defs)

text \<open>The endless loop again, starting from a state without child processes.\<close>

theorem timeout_reaps_child_witness:
  "open_result ex_world = None \<and> write_result ex_world = None \<and>
   run_child ex_world (child_args ex_world ex_executor)
     ((files ex_ready)(code_file ex_executor \<mapsto> ''while True: pass'')) = Timed_out ''timed out'' \<and>
   spawned (snd (execute_code ex_world ex_executor (VStr ''while True: pass'') (VList []) ex_ready)) = 1 \<and>
   running (snd (execute_code ex_world ex_executor (VStr ''while True: pass'') (VList []) ex_ready)) = 0 \<and>
   zombies (snd (execute_code ex_world ex_executor (VStr ''while True: pass'') (VList []) ex_ready)) = 0"
proof -
  have h: "open_result ex_world = None" "write_result ex_world = None"
    "run_child ex_world (child_args ex_world ex_executor)
       ((files ex_ready)(code_file ex_executor \<mapsto> ''while True: pass'')) = Timed_out ''timed out''"
    by (simp_all add: ex_defs child_args_def code_file_def)
  have p: "spawned ex_ready = 0" "running ex_ready = 0" "zombies ex_ready = 0"
    by (simp_all add: ex_ready_def ex_state_def)
  show ?thesis
    using h timeout_reaps_child [OF h, of "VList []"] by (simp add: p)
qed




text \<open>
  \<^bold>\<open>C9\<close>. \<^verbatim>\<open>execute_code\<close> accepts \<^verbatim>\<open>test_cases\<close> and never looks at it:
  for any two values the result and the final state (files, child processes) are the
  same.
\<close>

theorem execute_code_ignores_test_cases:
  "execute_code w self code tc1 = execute_code w self code tc2"
  by (simp add: execute_code_def)

text \<open>
  \<^bold>\<open>C10\<close> as stated holds for every request; but the environment is read by the
  constructor, which runs only after the code was found non-empty. With
  \<^verbatim>\<open>EXECUTION_TIMEOUT=abc\<close> and the request \<^verbatim>\<open>{}\<close> the message is
  \<^verbatim>\<open>No code provided\<close>, and the environment was not read at all.
\<close>

theorem no_code_beats_invalid_timeout:
  "environ (ex_world_abc\<lparr>stdin_read := Inr (unicode_of ''{}'')\<rparr>)
     ''EXECUTION_TIMEOUT'' = Some ''abc'' \<and>
   int_builtin ex_world ''abc'' =
     Inl (''invalid literal for int() with base 10: '' @ [CHR 0x27] @ ''abc'' @ [CHR 0x27]) \<and>
   main (ex_world_abc\<lparr>stdin_read := Inr (unicode_of ''{}'')\<rparr>)
       ex_state =
     (Inr (), ex_state\<lparr>printed := [Failure ''No code provided'']\<rparr>)"
  by (simp add: model_defs ex_defs)

text \<open>
  \<^bold>\<open>C10\<close> (as the code has it). For a request that carries non-empty code: when
  \<^verbatim>\<open>EXECUTION_TIMEOUT\<close> is set to a string that \<^verbatim>\<open>int\<close> rejects with message
  \<open>m\<close>, \<^verbatim>\<open>main\<close> returns having read that one variable and printed the single
  message \<^verbatim>\<open>{success: false, error: "Executor error: {m}"}\<close>; nothing else
  changes, so no workspace is created and no child is spawned. When the constructor
  succeeds it has read \<^verbatim>\<open>EXECUTION_TIMEOUT\<close> and \<^verbatim>\<open>MAX_MEMORY\<close> once each, in
  this order; an unset \<^verbatim>\<open>EXECUTION_TIMEOUT\<close> gives the timeout 30 (the integer
  that \<^verbatim>\<open>int('30')\<close> is) and an unset \<^verbatim>\<open>MAX_MEMORY\<close> gives \<^verbatim>\<open>128m\<close>.
\<close>

theorem main_invalid_timeout:
  "(stdin_isatty w = Inr False \<and> stdin_read w = Inr t \<and> py_strip t \<noteq> [] \<and>
    json_loads w t = Inr (VDict kvs) \<and> map_of kvs ''code'' = Some c \<and> truthy c \<and>
    environ w ''EXECUTION_TIMEOUT'' = Some v \<and> int_builtin w v = Inl m
    \<longrightarrow> main w s =
        (Inr (), s\<lparr>env_reads := env_reads s @ [''EXECUTION_TIMEOUT''],
                   printed := printed s @ [Failure (''Executor error: '' @ m)]\<rparr>)) \<and>
   (init w s = (Inr ex, s')
    \<longrightarrow> env_reads s' = env_reads s @ [''EXECUTION_TIMEOUT'', ''MAX_MEMORY''] \<and>
        (environ w ''EXECUTION_TIMEOUT'' = None \<and> int_builtin w ''30'' = Inr 30
           \<longrightarrow> timeout ex = 30) \<and>
        (environ w ''MAX_MEMORY'' = None \<longrightarrow> max_memory ex = ''128m''))"
proof -
  have 1: "main w s =
        (Inr (), s\<lparr>env_reads := env_reads s @ [''EXECUTION_TIMEOUT''],
                   printed := printed s @ [Failure (''Executor error: '' @ m)]\<rparr>)"
    if h: "stdin_isatty w = Inr False \<and> stdin_read w = Inr t \<and> py_strip t \<noteq> [] \<and>
        json_loads w t = Inr (VDict kvs) \<and> map_of kvs ''code'' = Some c \<and> truthy c \<and>
        environ w ''EXECUTION_TIMEOUT'' = Some v \<and> int_builtin w v = Inl m"
  proof -
    from h have i: "init w s = (Inl (Error m), s\<lparr>env_reads := env_reads s @ [''EXECUTION_TIMEOUT'']\<rparr>)"
      by (simp add: init_bad_timeout)
    from h have "main w s =
       try_except
         (io_bind (init w) (\<lambda>executor.
          io_bind (execute_code w executor c
                     (case map_of kvs ''test_cases'' of None \<Rightarrow> VList [] | Some v \<Rightarrow> v))
            (\<lambda>result. print (Result result))))
         (\<lambda>e. print (Failure (''Executor error: '' @ exn_str e))) s"
      by (intro main_with_code) auto
    with i show ?thesis
      by (simp add: try_except_def io_bind_def print_def)
  qed
  have 2: "env_reads s' = env_reads s @ [''EXECUTION_TIMEOUT'', ''MAX_MEMORY''] \<and>
        (environ w ''EXECUTION_TIMEOUT'' = None \<and> int_builtin w ''30'' = Inr 30
           \<longrightarrow> timeout ex = 30) \<and>
        (environ w ''MAX_MEMORY'' = None \<longrightarrow> max_memory ex = ''128m'')"
    if "init w s = (Inr ex, s')"
    using init_success [OF that] by auto
  from 1 2 show ?thesis by blast
qed

text \<open>The example request under \<^verbatim>\<open>EXECUTION_TIMEOUT=abc\<close>, and under an empty environment.\<close>

theorem main_invalid_timeout_witness:
  \<open>stdin_isatty ex_world = Inr False \<and>
   py_strip (unicode_of ''{"code": "import os; print(os.getcwd())"}'') \<noteq> [] \<and>
   json_loads ex_world (unicode_of ''{"code": "import os; print(os.getcwd())"}'') =
     Inr (VDict [(''code'', VStr ''import os; print(os.getcwd())'')]) \<and>
   truthy (VStr ''import os; print(os.getcwd())'') \<and>
   int_builtin ex_world ''abc'' =
     Inl (''invalid literal for int() with base 10: '' @ [CHR 0x27] @ ''abc'' @ [CHR 0x27]) \<and>
   main ex_world_abc ex_state =
     (Inr (), ex_state\<lparr>env_reads := [''EXECUTION_TIMEOUT''],
        printed := [Failure (''Executor error: invalid literal for int() with base 10: ''
                             @ [CHR 0x27] @ ''abc'' @ [CHR 0x27])]\<rparr>) \<and>
   init ex_world ex_state =
     (Inr ex_executor, ex_ready\<lparr>env_reads := [''EXECUTION_TIMEOUT'', ''MAX_MEMORY'']\<rparr>) \<and>
   environ ex_world ''EXECUTION_TIMEOUT'' = None \<and> int_builtin ex_world ''30'' = Inr 30 \<and>
   environ ex_world ''MAX_MEMORY'' = None \<and>
   timeout ex_executor = 30 \<and> max_memory ex_executor = ''128m''\<close>
proof -
  have i: "init ex_world ex_state =
     (Inr ex_executor, ex_ready\<lparr>env_reads := [''EXECUTION_TIMEOUT'', ''MAX_MEMORY'']\<rparr>)"
    by (simp add: init_def io_defs ex_defs)
  show ?thesis
    using i
      main_invalid_timeout [of ex_world_abc
        \<open>unicode_of ''{"code": "import os; print(os.getcwd())"}''\<close>
        "[(''code'', VStr ''import os; print(os.getcwd())'')]"
        "VStr ''import os; print(os.getcwd())''" "''abc''"
        "''invalid literal for int() with base 10: '' @ [CHR 0x27] @ ''abc'' @ [CHR 0x27]"
        ex_state]
      main_invalid_timeout [of ex_world _ _ _ _ _ ex_state ex_executor
        "ex_ready\<lparr>env_reads := [''EXECUTION_TIMEOUT'', ''MAX_MEMORY'']\<rparr>"]
    by (simp add: ex_world_def ex_world_abc_def ex_state_def ex_json_loads_def ex_int_def
          py_strip_def py_isspace_def unicode_of_def)
qed

end
